theory Spec2Isabelle
  imports Complex_Main "HOL-Library.Sublist"
begin

section \<open>Python strings\<close>

text \<open>
  A Python \<open>str\<close> is modelled as a \<open>string\<close>: a list of characters, each a code point
  in \<open>0..255\<close>. On that range \<open>isspace\<close> and \<open>lower_char\<close> are Python's \<open>str.isspace\<close> and
  \<open>str.lower\<close>: the whitespace characters are TAB..CR, FS..US, SPACE, NEL (0x85) and
  NBSP (0xA0); the upper-case letters are \<open>A..Z\<close> and 0xC0..0xDE without 0xD7, each
  32 below its lower-case letter. Queries with code points above 255 are outside the model.
\<close>

definition isspace :: "char \<Rightarrow> bool" where
  "isspace c = (let n = (of_char c :: nat) in
     (9 \<le> n \<and> n \<le> 13) \<or> (28 \<le> n \<and> n \<le> 32) \<or> n = 133 \<or> n = 160)"

definition lower_char :: "char \<Rightarrow> char" where
  "lower_char c = (let n = (of_char c :: nat) in
     if (65 \<le> n \<and> n \<le> 90) \<or> (192 \<le> n \<and> n \<le> 222 \<and> n \<noteq> 215)
     then char_of (n + 32) else c)"

text \<open>\<open>s.lower()\<close>\<close>

definition lower :: "string \<Rightarrow> string" where
  "lower s = map lower_char s"

text \<open>\<open>s.strip()\<close>: whitespace removed at both ends.\<close>

definition strip :: "string \<Rightarrow> string" where
  "strip s = rev (dropWhile isspace (rev (dropWhile isspace s)))"

text \<open>
  \<open>s.split()\<close>: the maximal runs of non-whitespace characters, in order. \<open>split_from w s\<close>
  scans \<open>s\<close> with \<open>w\<close> the word read so far.
\<close>

fun split_from :: "string \<Rightarrow> string \<Rightarrow> string list" where
  "split_from w [] = (if w = [] then [] else [w])"
| "split_from w (c # cs) =
     (if isspace c then (if w = [] then split_from [] cs else w # split_from [] cs)
      else split_from (w @ [c]) cs)"

definition split :: "string \<Rightarrow> string list" where
  "split s = split_from [] s"

text \<open>\<open>s.startswith(p)\<close> is \<open>prefix p s\<close>, \<open>p in s\<close> is \<open>sublist p s\<close>, \<open>s[n:]\<close> is \<open>drop n s\<close>.\<close>

definition startswith :: "string \<Rightarrow> string \<Rightarrow> bool" where
  "startswith s p = prefix p s"

definition newline :: string where
  "newline = [CHR 0x0A]"

text \<open>\<open>sep.join(parts)\<close>\<close>

fun join :: "string \<Rightarrow> string list \<Rightarrow> string" where
  "join sep [] = []"
| "join sep [x] = x"
| "join sep (x # y # zs) = x @ sep @ join sep (y # zs)"

text \<open>\<open>str(n)\<close> for an integer: its decimal digits, with a leading minus sign when negative.\<close>

fun str_nat :: "nat \<Rightarrow> string" where
  "str_nat n = (if n < 10 then [char_of (48 + n)] else str_nat (n div 10) @ [char_of (48 + n mod 10)])"

definition str_int :: "int \<Rightarrow> string" where
  "str_int i = (if i < 0 then CHR ''-'' # str_nat (nat (- i)) else str_nat (nat i))"

text \<open>
  \<open>random.choice(seq)\<close>: the element at the drawn index. The draw is an input of the model;
  any natural number is reduced into the range of the sequence. Only called on the
  non-empty literal message pools below.
\<close>

definition random_choice :: "'a list \<Rightarrow> nat \<Rightarrow> 'a" where
  "random_choice seq draw = seq ! (draw mod length seq)"

section \<open>Data\<close>

text \<open>
  Exceptions are values: \<open>ValueError\<close> is raised by the repository's own checks,
  \<open>OtherException\<close> stands for whatever an external collaborator raises (the language
  model, the FAISS index, the PDF reader).
\<close>

datatype exn = ValueError string | OtherException string

text \<open>Values of a metadata dictionary: \<open>source\<close> and \<open>type\<close> are strings, \<open>chunk_id\<close> an integer.\<close>

datatype pyval = PStr string | PInt int

type_synonym metadata = "(string \<times> pyval) list"

text \<open>
  A chunk as the document processor produces it: a dictionary with key \<open>content\<close> and,
  optionally, key \<open>metadata\<close>.
\<close>

record chunk =
  content :: string
  chunk_metadata :: "metadata option"

text \<open>A LangChain \<open>Document\<close>.\<close>

record document =
  page_content :: string
  doc_metadata :: metadata

text \<open>A retrieved document as \<open>retrieve_context\<close> returns it; \<open>score\<close> is always \<open>None\<close>.\<close>

record retrieval_result =
  result_content :: string
  result_metadata :: metadata
  score :: "real option"

text \<open>The calls made to external collaborators, in the order made.\<close>

datatype effect =
    LLM_Invoke string
  | Retriever_Invoke string int
  | Similarity_Search string int
  | From_Documents "document list"

text \<open>
  The external collaborators, each a function that returns or raises:
  \<open>llm_invoke prompt\<close> is \<open>self.llm.invoke(prompt).content\<close>,
  \<open>from_documents docs\<close> is \<open>FAISS.from_documents(docs, self.embeddings)\<close>,
  \<open>retriever_invoke ix k query\<close> is
  \<open>ix.as_retriever(search_type="similarity", search_kwargs={"k": k}).invoke(query)\<close>,
  \<open>similarity_search ix query k\<close> is \<open>ix.similarity_search(query, k=k)\<close>, and
  \<open>process_pdf file filename\<close> is \<open>DocumentProcessor.process_pdf\<close>, whose text
  extraction and splitting are library code. \<open>'ix\<close> is the type of FAISS index objects.
\<close>

text \<open>An uploaded file: its name and its bytes.\<close>

record uploaded_file =
  file_name :: string
  file_bytes :: string

record 'ix collaborators =
  llm_invoke :: "string \<Rightarrow> exn + string"
  from_documents :: "document list \<Rightarrow> exn + 'ix"
  retriever_invoke :: "'ix \<Rightarrow> int \<Rightarrow> string \<Rightarrow> exn + document list"
  similarity_search :: "'ix \<Rightarrow> string \<Rightarrow> int \<Rightarrow> exn + document list"
  process_pdf :: "uploaded_file \<Rightarrow> string \<Rightarrow> exn + chunk list"

section \<open>rag\_chain.py: the query classifier\<close>

definition greetings :: "string list" where
  "greetings = [''hi'', ''hello'', ''hey'', ''greetings'', ''good morning'',
     ''good afternoon'', ''good evening'', ''howdy'', ''sup'',
     ''what's up'', ''how are you'', ''how's it going'']"

text \<open>
  The loop \<open>for greeting in greetings\<close> of \<open>_is_greeting\<close>, over the phrases still to visit.
  Python iterates the set in an unspecified order; the result does not depend on it.
\<close>

fun greeting_loop :: "string list \<Rightarrow> string \<Rightarrow> bool" where
  "greeting_loop [] query_lower = False"
| "greeting_loop (greeting # rest) query_lower =
     (if startswith query_lower greeting then
        (let remaining = strip (drop (length greeting) query_lower) in
         if remaining = [] \<or> length (split remaining) \<le> 2 then True
         else greeting_loop rest query_lower)
      else greeting_loop rest query_lower)"

definition is_greeting :: "string \<Rightarrow> bool" where
  "is_greeting query =
     (let query_lower = strip (lower query) in
      if query_lower \<in> set greetings then True
      else greeting_loop greetings query_lower)"

definition farewells :: "string list" where
  "farewells = [''bye'', ''goodbye'', ''see you'', ''take care'', ''farewell'',
     ''adios'', ''cya'', ''see ya'', ''cheerio'', ''gotta go'',
     ''have to go'', ''talk later'', ''ttyl'']"

definition is_farewell :: "string \<Rightarrow> bool" where
  "is_farewell query =
     (let query_lower = strip (lower query) in
      list_ex (\<lambda>farewell. sublist farewell query_lower) farewells)"

definition unclear_keywords :: "string list" where
  "unclear_keywords = [''nothing'', ''nope'', ''nah'', ''whatever'', ''dunno'', ''idk'']"

definition is_unclear_query :: "string \<Rightarrow> bool" where
  "is_unclear_query query =
     (let query_lower = strip (lower query) in
      length (split query_lower) = 1 \<and> query_lower \<in> set unclear_keywords)"

definition document_keywords :: "string list" where
  "document_keywords = [''document'', ''documents'', ''file'', ''pdf'', ''mention'', ''mentioned'',
     ''in the document'', ''from the document'', ''uploaded'', ''your document'',
     ''my document'', ''about the file'', ''does the document'']"

definition is_document_question :: "string \<Rightarrow> bool" where
  "is_document_question query =
     (let query_lower = lower query in
      list_ex (\<lambda>keyword. sublist keyword query_lower) document_keywords)"

definition farewell_messages :: "string list" where
  "farewell_messages =
    [''Goodbye! Feel free to come back anytime you have questions.'',
     ''See you later! Take care!'',
     ''Bye! I'm here whenever you need help.'',
     ''Have a great day! Come back if you need more information.'',
     ''Take care! See you soon!'']"

definition generate_farewell_message :: "nat \<Rightarrow> string" where
  "generate_farewell_message draw = random_choice farewell_messages draw"

definition clarification_messages :: "string list" where
  "clarification_messages =
    [''I'm not sure what you mean. Could you ask me a question about medical topics or your uploaded documents?'',
     ''Please provide more details. What would you like to know about?'',
     ''I'd be happy to help! Could you please rephrase your question?'',
     ''Can you ask me a specific question about medical topics or your documents?'']"

definition generate_clarification_message :: "nat \<Rightarrow> string" where
  "generate_clarification_message draw = random_choice clarification_messages draw"

text \<open>
  The intent of a query: the branch that the chain of tests in \<open>answer_question\<close> takes,
  in the order in which it makes them (first match wins).
\<close>

datatype intent = Greeting | Farewell | Unclear | Document_Targeted | General

definition classify :: "string \<Rightarrow> intent" where
  "classify query =
     (if is_greeting query then Greeting
      else if is_farewell query then Farewell
      else if is_unclear_query query then Unclear
      else if is_document_question query then Document_Targeted
      else General)"

section \<open>rag\_chain.py: prompts\<close>

definition format_value :: "pyval \<Rightarrow> string" where
  "format_value v = (case v of PStr s \<Rightarrow> s | PInt i \<Rightarrow> str_int i)"

text \<open>
  The loop of \<open>_format_context\<close> over \<open>enumerate(context, 1)\<close>, from index \<open>i\<close> on: one
  formatted block per retrieved document.
\<close>

fun format_blocks :: "int \<Rightarrow> retrieval_result list \<Rightarrow> string list" where
  "format_blocks i [] = []"
| "format_blocks i (doc # docs) =
     (let source = (case map_of (result_metadata doc) ''source'' of
                      None \<Rightarrow> ''Unknown'' | Some v \<Rightarrow> format_value v)
      in (''[Document '' @ str_int i @ '' - '' @ source @ '']'' @ newline
            @ result_content doc @ newline)
         # format_blocks (i + 1) docs)"

definition format_context :: "retrieval_result list \<Rightarrow> string" where
  "format_context context = join (newline @ ''---'' @ newline) (format_blocks 1 context)"

definition build_prompt :: "string \<Rightarrow> string \<Rightarrow> string" where
  "build_prompt query context = join newline
    [''You are a helpful medical knowledge assistant. Use the provided context to answer the user's question accurately and concisely.'',
     '''',
     ''CONTEXT:'',
     context,
     '''',
     ''USER QUESTION:'',
     query,
     '''',
     ''INSTRUCTIONS:'',
     ''- Answer based only on the provided context'',
     ''- If the context doesn't contain relevant information, say '' @ [CHR 0x22]
        @ ''I don't have enough information to answer that'' @ [CHR 0x22],
     ''- Be concise and clear'',
     ''- Provide medical information responsibly'',
     ''- Include relevant citations from source documents'',
     '''',
     ''ANSWER:'']"

text \<open>The prompt of \<open>generate_response_without_context\<close>.\<close>

definition general_knowledge_prompt :: "string \<Rightarrow> string" where
  "general_knowledge_prompt query = join newline
    [''You are a helpful medical knowledge assistant. Answer the user's question based on your general knowledge.'',
     '''',
     ''USER QUESTION:'',
     query,
     '''',
     ''INSTRUCTIONS:'',
     ''- Answer naturally and conversationally'',
     ''- Be accurate and helpful'',
     ''- If it's a greeting, respond warmly'',
     ''- For medical questions, provide general information responsibly'',
     ''- Include disclaimers where appropriate'',
     '''',
     ''ANSWER:'']"

section \<open>rag\_chain.py: the RAG chain\<close>

text \<open>
  The fields of a \<open>RAGChain\<close> that its methods read or assign: \<open>vector_store\<close> is \<open>None\<close>
  or a FAISS index, \<open>retriever\<close> is \<open>None\<close> or a retriever over an index with its \<open>k\<close>.
  A FAISS index object is always truthy, so \<open>not self.vector_store\<close> holds exactly for
  \<open>None\<close>. The model name, the temperature and the client objects are never reassigned
  and are left out; logging is not modelled.

  A method returns its result (or the exception it raises), the object after the call,
  and the calls it made to external collaborators.
\<close>

record 'ix rag_chain =
  vector_store :: "'ix option"
  retriever :: "('ix \<times> int) option"

definition RAGChain_init :: "'ix rag_chain" where
  "RAGChain_init = \<lparr>vector_store = None, retriever = None\<rparr>"

definition to_document :: "chunk \<Rightarrow> document" where
  "to_document doc =
     \<lparr>page_content = content doc,
      doc_metadata = (case chunk_metadata doc of None \<Rightarrow> [] | Some m \<Rightarrow> m)\<rparr>"

definition create_vector_store ::
  "'ix collaborators \<Rightarrow> 'ix rag_chain \<Rightarrow> chunk list
     \<Rightarrow> (exn + unit) \<times> 'ix rag_chain \<times> effect list" where
  "create_vector_store env self documents =
     (let langchain_docs = map to_document documents in
      case from_documents env langchain_docs of
        Inl e \<Rightarrow> (Inl e, self, [From_Documents langchain_docs])
      | Inr vs \<Rightarrow>
          (Inr (), self\<lparr>vector_store := Some vs, retriever := Some (vs, 5)\<rparr>,
           [From_Documents langchain_docs]))"

definition to_result :: "document \<Rightarrow> retrieval_result" where
  "to_result doc =
     \<lparr>result_content = page_content doc, result_metadata = doc_metadata doc, score = None\<rparr>"

definition retrieve_context ::
  "'ix collaborators \<Rightarrow> 'ix rag_chain \<Rightarrow> string \<Rightarrow> int
     \<Rightarrow> (exn + retrieval_result list) \<times> 'ix rag_chain \<times> effect list" where
  "retrieve_context env self query top_k =
     (case vector_store self of
        None \<Rightarrow>
          (Inl (ValueError ''Vector store not initialized. Process documents first.''), self, [])
      | Some vs \<Rightarrow>
          (case retriever_invoke env vs top_k query of
             Inl e \<Rightarrow> (Inl e, self, [Retriever_Invoke query top_k])
           | Inr retrieved_docs \<Rightarrow>
               (Inr (map to_result retrieved_docs), self, [Retriever_Invoke query top_k])))"

definition generate_response ::
  "'ix collaborators \<Rightarrow> 'ix rag_chain \<Rightarrow> string \<Rightarrow> retrieval_result list
     \<Rightarrow> (exn + string) \<times> 'ix rag_chain \<times> effect list" where
  "generate_response env self query context =
     (let context_text = format_context context;
          prompt = build_prompt query context_text
      in (llm_invoke env prompt, self, [LLM_Invoke prompt]))"

definition generate_response_without_context ::
  "'ix collaborators \<Rightarrow> 'ix rag_chain \<Rightarrow> string
     \<Rightarrow> (exn + string) \<times> 'ix rag_chain \<times> effect list" where
  "generate_response_without_context env self query =
     (let prompt = general_knowledge_prompt query
      in (llm_invoke env prompt, self, [LLM_Invoke prompt]))"

text \<open>
  \<open>answer_question\<close>. \<open>draw\<close> is the index that \<open>random.choice\<close> draws when a canned message
  is picked. \<open>use_documents_only\<close> is a parameter that the body never reads. The
  \<open>except\<close> clause logs and re-raises, so an exception of a callee is the exception of
  the call.
\<close>

definition answer_question ::
  "'ix collaborators \<Rightarrow> 'ix rag_chain \<Rightarrow> string \<Rightarrow> int \<Rightarrow> bool \<Rightarrow> nat
     \<Rightarrow> (exn + string \<times> retrieval_result list) \<times> 'ix rag_chain \<times> effect list" where
  "answer_question env self query top_k use_documents_only draw =
     (if is_greeting query then
        (case generate_response_without_context env self query of
           (Inl e, self1, fx) \<Rightarrow> (Inl e, self1, fx)
         | (Inr answer, self1, fx) \<Rightarrow> (Inr (answer, []), self1, fx))
      else if is_farewell query then
        (Inr (generate_farewell_message draw, []), self, [])
      else if is_unclear_query query then
        (Inr (generate_clarification_message draw, []), self, [])
      else
        (let is_document_question = is_document_question query in
         if vector_store self = None then
           (case generate_response_without_context env self query of
              (Inl e, self1, fx) \<Rightarrow> (Inl e, self1, fx)
            | (Inr answer, self1, fx) \<Rightarrow> (Inr (answer, []), self1, fx))
         else
           (case retrieve_context env self query top_k of
              (Inl e, self1, fx) \<Rightarrow> (Inl e, self1, fx)
            | (Inr context, self1, fx) \<Rightarrow>
                if is_document_question \<and> context \<noteq> [] then
                  (case generate_response env self1 query context of
                     (Inl e, self2, fx2) \<Rightarrow> (Inl e, self2, fx @ fx2)
                   | (Inr answer, self2, fx2) \<Rightarrow> (Inr (answer, context), self2, fx @ fx2))
                else if is_document_question then
                  (Inr (''I don't have enough information in the documents to answer that question.'',
                        []), self1, fx)
                else
                  (case generate_response_without_context env self1 query of
                     (Inl e, self2, fx2) \<Rightarrow> (Inl e, self2, fx @ fx2)
                   | (Inr answer, self2, fx2) \<Rightarrow> (Inr (answer, []), self2, fx @ fx2)))))"

section \<open>vector\_store.py\<close>

record 'ix vector_store_object =
  vs_vector_store :: "'ix option"

definition VectorStore_init :: "'ix vector_store_object" where
  "VectorStore_init = \<lparr>vs_vector_store = None\<rparr>"

definition VectorStore_create_vector_store ::
  "'ix collaborators \<Rightarrow> 'ix vector_store_object \<Rightarrow> chunk list
     \<Rightarrow> (exn + unit) \<times> 'ix vector_store_object \<times> effect list" where
  "VectorStore_create_vector_store env self documents =
     (if documents = [] then (Inl (ValueError ''Documents list cannot be empty''), self, [])
      else
        (let langchain_docs = map to_document documents in
         case from_documents env langchain_docs of
           Inl e \<Rightarrow> (Inl e, self, [From_Documents langchain_docs])
         | Inr vs \<Rightarrow>
             (Inr (), self\<lparr>vs_vector_store := Some vs\<rparr>, [From_Documents langchain_docs])))"

text \<open>\<open>VectorStore.query\<close> returns dictionaries with the single key \<open>content\<close>.\<close>

definition VectorStore_query ::
  "'ix collaborators \<Rightarrow> 'ix vector_store_object \<Rightarrow> string \<Rightarrow> int
     \<Rightarrow> (exn + string list) \<times> 'ix vector_store_object \<times> effect list" where
  "VectorStore_query env self query_text top_k =
     (case vs_vector_store self of
        None \<Rightarrow> (Inl (ValueError ''Vector store is not initialized.''), self, [])
      | Some vs \<Rightarrow>
          (case similarity_search env vs query_text top_k of
             Inl e \<Rightarrow> (Inl e, self, [Similarity_Search query_text top_k])
           | Inr results \<Rightarrow>
               (Inr (map page_content results), self, [Similarity_Search query_text top_k])))"

section \<open>chat\_manager.py\<close>

text \<open>
  \<open>datetime.now()\<close> is an input of the model: an \<open>instant\<close>. The metadata of a message
  is a dictionary; the application stores the retrieved sources under one key.
\<close>

type_synonym instant = nat

type_synonym message_metadata = "(string \<times> retrieval_result list) list"

record chat_message =
  role :: string
  message_content :: string
  timestamp :: instant
  message_metadata :: message_metadata

definition ChatMessage_init ::
  "string \<Rightarrow> string \<Rightarrow> message_metadata option \<Rightarrow> instant \<Rightarrow> exn + chat_message" where
  "ChatMessage_init role_arg content_arg metadata_arg now =
     (if role_arg \<noteq> ''user'' \<and> role_arg \<noteq> ''assistant'' then
        Inl (ValueError (''Role must be 'user' or 'assistant', got '' @ role_arg))
      else
        Inr \<lparr>role = role_arg, message_content = content_arg, timestamp = now,
             message_metadata = (case metadata_arg of None \<Rightarrow> [] | Some m \<Rightarrow> m)\<rparr>)"

record chat_manager =
  messages :: "chat_message list"
  max_history :: int
  conversation_id :: string

text \<open>\<open>ChatManager(max_history)\<close>; the conversation id is a rendering of the current time.\<close>

definition ChatManager_init :: "int \<Rightarrow> string \<Rightarrow> chat_manager" where
  "ChatManager_init max_history_arg generated_id =
     \<lparr>messages = [], max_history = max_history_arg, conversation_id = generated_id\<rparr>"

text \<open>
  The Python slice \<open>xs[start:]\<close>: a negative \<open>start\<close> counts from the end, and the
  bound is clipped to \<open>0..len(xs)\<close>.
\<close>

definition slice_from :: "'a list \<Rightarrow> int \<Rightarrow> 'a list" where
  "slice_from xs start =
     (let n = int (length xs);
          lo = (if start < 0 then max (n + start) 0 else min start n)
      in drop (nat lo) xs)"

definition trim_history :: "chat_manager \<Rightarrow> chat_manager" where
  "trim_history self =
     (if int (length (messages self)) > max_history self then
        self\<lparr>messages := slice_from (messages self) (- max_history self)\<rparr>
      else self)"

definition add_user_message ::
  "chat_manager \<Rightarrow> string \<Rightarrow> instant \<Rightarrow> (exn + chat_message) \<times> chat_manager" where
  "add_user_message self content_arg now =
     (case ChatMessage_init ''user'' content_arg None now of
        Inl e \<Rightarrow> (Inl e, self)
      | Inr message \<Rightarrow>
          (Inr message, trim_history (self\<lparr>messages := messages self @ [message]\<rparr>)))"

definition add_assistant_message ::
  "chat_manager \<Rightarrow> string \<Rightarrow> message_metadata option \<Rightarrow> instant
     \<Rightarrow> (exn + chat_message) \<times> chat_manager" where
  "add_assistant_message self content_arg metadata_arg now =
     (case ChatMessage_init ''assistant'' content_arg metadata_arg now of
        Inl e \<Rightarrow> (Inl e, self)
      | Inr message \<Rightarrow>
          (Inr message, trim_history (self\<lparr>messages := messages self @ [message]\<rparr>)))"

text \<open>
  A sequence of appends to one conversation: each is a call of \<open>add_user_message\<close> or of
  \<open>add_assistant_message\<close>. \<open>appended call\<close> is the message the call creates.
\<close>

datatype append_call =
    Add_User string instant
  | Add_Assistant string "message_metadata option" instant

fun append_message :: "chat_manager \<Rightarrow> append_call \<Rightarrow> chat_manager" where
  "append_message self (Add_User c now) = snd (add_user_message self c now)"
| "append_message self (Add_Assistant c m now) = snd (add_assistant_message self c m now)"

fun appended :: "append_call \<Rightarrow> chat_message" where
  "appended (Add_User c now) =
     \<lparr>role = ''user'', message_content = c, timestamp = now, message_metadata = []\<rparr>"
| "appended (Add_Assistant c m now) =
     \<lparr>role = ''assistant'', message_content = c, timestamp = now,
      message_metadata = (case m of None \<Rightarrow> [] | Some d \<Rightarrow> d)\<rparr>"

definition append_all :: "chat_manager \<Rightarrow> append_call list \<Rightarrow> chat_manager" where
  "append_all self calls = foldl append_message self calls"

section \<open>app.py: document submission\<close>

record processed_doc =
  filename :: string
  chunks :: "chunk list"
  num_chunks :: nat

text \<open>
  The entries of \<open>st.session_state\<close> that \<open>process_documents\<close> reads or updates.
\<close>

record 'ix session_state =
  processed_docs :: "processed_doc list"
  rag_chain :: "'ix rag_chain"
  all_chunks :: "chunk list"

definition initialize_session_state :: "'ix session_state" where
  "initialize_session_state =
     \<lparr>processed_docs = [], rag_chain = RAGChain_init, all_chunks = []\<rparr>"

text \<open>
  The loop \<open>for file in uploaded_files\<close>: a file whose processing raises is reported and
  skipped, the chunks of every other file are appended to \<open>all_chunks\<close>.
\<close>

fun process_files ::
  "'ix collaborators \<Rightarrow> 'ix session_state \<Rightarrow> uploaded_file list \<Rightarrow> 'ix session_state" where
  "process_files env st [] = st"
| "process_files env st (file # files) =
     (case process_pdf env file (file_name file) of
        Inl e \<Rightarrow> process_files env st files
      | Inr cs \<Rightarrow>
          process_files env
            (st\<lparr>all_chunks := all_chunks st @ cs,
                processed_docs := processed_docs st @
                  [\<lparr>filename = file_name file, chunks = cs, num_chunks = length cs\<rparr>]\<rparr>)
            files)"

text \<open>
  \<open>process_documents\<close>: after the loop the vector store is created from all accumulated
  chunks, when there are any; an exception of the creation is reported and swallowed.
  The result is the session state after the call and the external calls of the creation.
\<close>

definition process_documents ::
  "'ix collaborators \<Rightarrow> 'ix session_state \<Rightarrow> uploaded_file list
     \<Rightarrow> 'ix session_state \<times> effect list" where
  "process_documents env st uploaded_files =
     (let st1 = process_files env st uploaded_files in
      if all_chunks st1 \<noteq> [] then
        (case create_vector_store env (rag_chain st1) (all_chunks st1) of
           (outcome, chain1, fx) \<Rightarrow> (st1\<lparr>rag_chain := chain1\<rparr>, fx))
      else (st1, []))"

text \<open>
  A session: \<open>process_documents\<close> called once per batch of uploaded files, from a state on.
  \<open>batch_chunks env files\<close> is the batch a call submits: the chunks of its files that
  were processed without an exception, in order.
\<close>

definition submit_all ::
  "'ix collaborators \<Rightarrow> 'ix session_state \<Rightarrow> uploaded_file list list \<Rightarrow> 'ix session_state" where
  "submit_all env st batches = foldl (\<lambda>s files. fst (process_documents env s files)) st batches"

definition batch_chunks :: "'ix collaborators \<Rightarrow> uploaded_file list \<Rightarrow> chunk list" where
  "batch_chunks env files =
     concat (map (\<lambda>file. case process_pdf env file (file_name file) of
                            Inl e \<Rightarrow> [] | Inr cs \<Rightarrow> cs) files)"

section \<open>Build attempts\<close>

text \<open>
  A sequence of calls of \<open>RAGChain.create_vector_store\<close> on one object, the exception of
  a failed call caught by the caller (as \<open>process_documents\<close> does).
\<close>

definition attempt_builds ::
  "'ix collaborators \<Rightarrow> 'ix rag_chain \<Rightarrow> chunk list list \<Rightarrow> 'ix rag_chain" where
  "attempt_builds env self attempts =
     foldl (\<lambda>s documents. fst (snd (create_vector_store env s documents))) self attempts"

section \<open>Sample collaborators\<close>

text \<open>
  Collaborators for concrete runs; an index is the list of its documents.
  \<open>sample_env\<close>: every collaborator returns. The model answers every prompt with one
  fixed sentence, the index returns its first \<open>k\<close> documents, and a file is one chunk
  (\<open>sample_file_chunk\<close>).
  \<open>no_hits_env\<close>: as \<open>sample_env\<close>, with a retriever that finds nothing.
  \<open>faiss_like_env\<close>: as \<open>sample_env\<close>, with an index constructor that raises its own
  exception on an empty list of documents.
  \<open>failing_env\<close>: every collaborator raises.
\<close>

definition sample_file_chunk :: "uploaded_file \<Rightarrow> string \<Rightarrow> chunk" where
  "sample_file_chunk file name_arg =
     \<lparr>content = file_bytes file,
      chunk_metadata = Some [(''chunk_id'', PInt 0), (''source'', PStr name_arg),
                             (''type'', PStr ''pdf'')]\<rparr>"

definition sample_env :: "document list collaborators" where
  "sample_env =
     \<lparr>llm_invoke = (\<lambda>prompt. Inr ''Hello! How can I help you today?''),
      from_documents = (\<lambda>docs. Inr docs),
      retriever_invoke = (\<lambda>ix k query. Inr (take (nat k) ix)),
      similarity_search = (\<lambda>ix query k. Inr (take (nat k) ix)),
      process_pdf = (\<lambda>file name_arg. Inr [sample_file_chunk file name_arg])\<rparr>"

definition no_hits_env :: "document list collaborators" where
  "no_hits_env = sample_env\<lparr>retriever_invoke := (\<lambda>ix k query. Inr [])\<rparr>"

definition faiss_like_env :: "document list collaborators" where
  "faiss_like_env =
     sample_env\<lparr>from_documents := (\<lambda>docs.
       if docs = [] then Inl (OtherException ''list index out of range'') else Inr docs)\<rparr>"

definition failing_env :: "document list collaborators" where
  "failing_env =
     \<lparr>llm_invoke = (\<lambda>prompt. Inl (OtherException ''connection error'')),
      from_documents = (\<lambda>docs. Inl (OtherException ''connection error'')),
      retriever_invoke = (\<lambda>ix k query. Inl (OtherException ''connection error'')),
      similarity_search = (\<lambda>ix query k. Inl (OtherException ''connection error'')),
      process_pdf = (\<lambda>file name_arg. Inl (ValueError ''Error reading PDF''))\<rparr>"

definition sample_chunk :: chunk where
  "sample_chunk =
     \<lparr>content = ''Hypertension is high blood pressure.'',
      chunk_metadata = Some [(''chunk_id'', PInt 0), (''source'', PStr ''a.pdf''),
                             (''type'', PStr ''pdf'')]\<rparr>"

definition file_a :: uploaded_file where
  "file_a = \<lparr>file_name = ''a.pdf'', file_bytes = ''alpha''\<rparr>"

definition file_b :: uploaded_file where
  "file_b = \<lparr>file_name = ''b.pdf'', file_bytes = ''beta''\<rparr>"

definition sample_chain :: "document list rag_chain" where
  "sample_chain = fst (snd (create_vector_store sample_env RAGChain_init [sample_chunk]))"

section \<open>The greeting test\<close>

lemma greeting_loop_iff:
  "greeting_loop gs ql \<longleftrightarrow>
     (\<exists>g \<in> set gs. prefix g ql \<and>
        (strip (drop (length g) ql) = [] \<or> length (split (strip (drop (length g) ql))) \<le> 2))"
  by (induction gs) (auto simp: startswith_def Let_def)

lemma is_greeting_iff:
  "is_greeting query \<longleftrightarrow>
     (strip (lower query) \<in> set greetings \<or>
      (\<exists>g \<in> set greetings. prefix g (strip (lower query)) \<and>
        (strip (drop (length g) (strip (lower query))) = [] \<or>
         length (split (strip (drop (length g) (strip (lower query))))) \<le> 2)))"
  by (simp add: is_greeting_def Let_def greeting_loop_iff)

text \<open>No greeting phrase is a proper prefix of another one.\<close>

lemma greetings_prefix_free_all:
  "list_all (\<lambda>g. list_all (\<lambda>g'. \<not> prefix g g' \<or> g = g') greetings) greetings"
  by code_simp

lemma greetings_prefix_free:
  "g \<in> set greetings \<Longrightarrow> g' \<in> set greetings \<Longrightarrow> prefix g g' \<Longrightarrow> g = g'"
  using greetings_prefix_free_all unfolding list_all_iff by blast

text \<open>Splitting into words ignores whitespace at both ends.\<close>

lemma split_from_dropWhile: "split_from [] (dropWhile isspace s) = split_from [] s"
  by (induction s) auto

lemma split_from_trailing:
  "\<forall>c \<in> set ws. isspace c \<Longrightarrow> split_from w (s @ ws) = split_from w s"
proof (induction s arbitrary: w)
  case Nil
  then show ?case by (induction ws arbitrary: w) auto
next
  case (Cons c s)
  then show ?case by simp
qed

lemma split_strip: "split (strip s) = split s"
proof -
  let ?t = "dropWhile isspace s"
  have "?t = rev (dropWhile isspace (rev ?t)) @ rev (takeWhile isspace (rev ?t))"
    by (metis rev_append rev_rev_ident takeWhile_dropWhile_id)
  moreover have "\<forall>c \<in> set (rev (takeWhile isspace (rev ?t))). isspace c"
    by (auto dest: set_takeWhileD)
  ultimately have "split_from [] ?t = split_from [] (rev (dropWhile isspace (rev ?t)))"
    by (metis split_from_trailing)
  then show ?thesis by (simp add: split_def strip_def split_from_dropWhile)
qed

lemma long_tail_not_greeting:
  assumes g: "g \<in> set greetings" and ql: "strip (lower query) = g @ rest"
    and long: "3 \<le> length (split rest)"
  shows "\<not> is_greeting query"
proof
  assume "is_greeting query"
  then consider (exact) "g @ rest \<in> set greetings"
    | (pre) g' where "g' \<in> set greetings" "prefix g' (g @ rest)"
        "strip (drop (length g') (g @ rest)) = [] \<or>
         length (split (strip (drop (length g') (g @ rest)))) \<le> 2"
    unfolding is_greeting_iff ql by blast
  then show False
  proof cases
    case exact
    with g have "g = g @ rest" by (intro greetings_prefix_free) auto
    with long show False by (simp add: split_def)
  next
    case pre
    have "prefix g g' \<or> prefix g' g"
      using pre(2) by (metis prefixI prefix_same_cases)
    with g pre(1) have "g' = g" using greetings_prefix_free by blast
    with pre(3) have "strip rest = [] \<or> length (split (strip rest)) \<le> 2" by simp
    moreover have "strip rest = [] \<Longrightarrow> split (strip rest) = []" by (simp add: split_def)
    ultimately have "length (split (strip rest)) \<le> 2" by auto
    with long show False by (simp add: split_strip)
  qed
qed

lemma classify_Greeting_iff: "classify query = Greeting \<longleftrightarrow> is_greeting query"
  by (simp add: classify_def)

text \<open>
  Claim C5. The query is classified as a greeting exactly when its lowercased, trimmed
  form is a greeting phrase, or starts with a greeting phrase and what follows the phrase
  is, once trimmed, empty or at most two words. In particular a greeting phrase
  followed by three or more words is not classified as a greeting.
\<close>

theorem greeting_classification:
  "(classify query = Greeting) =
     (strip (lower query) \<in> set greetings \<or>
      (\<exists>g \<in> set greetings. startswith (strip (lower query)) g \<and>
         (strip (drop (length g) (strip (lower query))) = [] \<or>
          length (split (strip (drop (length g) (strip (lower query))))) \<le> 2)))
   \<and> (\<forall>g rest. g \<in> set greetings \<and> strip (lower query) = g @ rest \<and> 3 \<le> length (split rest)
         \<longrightarrow> classify query \<noteq> Greeting)"
  unfolding classify_Greeting_iff startswith_def
  using is_greeting_iff long_tail_not_greeting by blast

theorem greeting_classification_witness:
  "classify ''Hello there friend'' = Greeting \<and> classify ''Hello there my friend'' \<noteq> Greeting"
proof -
  have a: "''hello'' \<in> set greetings" by code_simp
  have b: "startswith (strip (lower ''Hello there friend'')) ''hello''" by code_simp
  have c: "length (split (strip (drop (length ''hello'') (strip (lower ''Hello there friend''))))) \<le> 2"
    by code_simp
  have d: "strip (lower ''Hello there my friend'') = ''hello'' @ '' there my friend''" by code_simp
  have e: "3 \<le> length (split '' there my friend'')" by code_simp
  from greeting_classification [of "''Hello there friend''"] a b c
  have "classify ''Hello there friend'' = Greeting" by blast
  moreover from greeting_classification [of "''Hello there my friend''"] a d e
  have "classify ''Hello there my friend'' \<noteq> Greeting" by blast
  ultimately show ?thesis by simp
qed

section \<open>The answer pipeline, branch by branch\<close>

lemma classify_cases:
  "classify q = Greeting \<longleftrightarrow> is_greeting q"
  "classify q = Farewell \<longleftrightarrow> \<not> is_greeting q \<and> is_farewell q"
  "classify q = Unclear \<longleftrightarrow> \<not> is_greeting q \<and> \<not> is_farewell q \<and> is_unclear_query q"
  "classify q = Document_Targeted \<longleftrightarrow>
     \<not> is_greeting q \<and> \<not> is_farewell q \<and> \<not> is_unclear_query q \<and> is_document_question q"
  "classify q = General \<longleftrightarrow>
     \<not> is_greeting q \<and> \<not> is_farewell q \<and> \<not> is_unclear_query q \<and> \<not> is_document_question q"
  by (simp_all add: classify_def)

lemma random_choice_member: "seq \<noteq> [] \<Longrightarrow> random_choice seq draw \<in> set seq"
  by (simp add: random_choice_def)

lemma farewell_message_in_pool: "generate_farewell_message draw \<in> set farewell_messages"
  unfolding generate_farewell_message_def
  by (rule random_choice_member) (simp add: farewell_messages_def)

lemma clarification_message_in_pool:
  "generate_clarification_message draw \<in> set clarification_messages"
  unfolding generate_clarification_message_def
  by (rule random_choice_member) (simp add: clarification_messages_def)

lemma answer_greeting:
  "is_greeting query \<Longrightarrow>
   answer_question env self query top_k udo draw =
     (case llm_invoke env (general_knowledge_prompt query) of
        Inl e \<Rightarrow> Inl e | Inr answer \<Rightarrow> Inr (answer, []),
      self, [LLM_Invoke (general_knowledge_prompt query)])"
  by (simp add: answer_question_def generate_response_without_context_def Let_def
      split: sum.splits)

lemma answer_farewell:
  "\<not> is_greeting query \<Longrightarrow> is_farewell query \<Longrightarrow>
   answer_question env self query top_k udo draw =
     (Inr (generate_farewell_message draw, []), self, [])"
  by (simp add: answer_question_def)

lemma answer_unclear:
  "\<not> is_greeting query \<Longrightarrow> \<not> is_farewell query \<Longrightarrow> is_unclear_query query \<Longrightarrow>
   answer_question env self query top_k udo draw =
     (Inr (generate_clarification_message draw, []), self, [])"
  by (simp add: answer_question_def)

lemma answer_with_index:
  assumes "\<not> is_greeting query" "\<not> is_farewell query" "\<not> is_unclear_query query"
    and "vector_store self = Some vs"
    and "retriever_invoke env vs top_k query = Inr retrieved_docs"
  shows "answer_question env self query top_k udo draw =
     (if is_document_question query \<and> retrieved_docs \<noteq> [] then
        (case llm_invoke env (build_prompt query (format_context (map to_result retrieved_docs))) of
           Inl e \<Rightarrow> Inl e | Inr answer \<Rightarrow> Inr (answer, map to_result retrieved_docs),
         self,
         [Retriever_Invoke query top_k,
          LLM_Invoke (build_prompt query (format_context (map to_result retrieved_docs)))])
      else if is_document_question query then
        (Inr (''I don't have enough information in the documents to answer that question.'', []),
         self, [Retriever_Invoke query top_k])
      else
        (case llm_invoke env (general_knowledge_prompt query) of
           Inl e \<Rightarrow> Inl e | Inr answer \<Rightarrow> Inr (answer, []),
         self, [Retriever_Invoke query top_k, LLM_Invoke (general_knowledge_prompt query)]))"
  using assms
  by (simp add: answer_question_def retrieve_context_def generate_response_def
      generate_response_without_context_def Let_def split: sum.splits)

lemma sample_chain_eq:
  "sample_chain = \<lparr>vector_store = Some [to_document sample_chunk],
                   retriever = Some ([to_document sample_chunk], 5)\<rparr>"
  by (simp add: sample_chain_def create_vector_store_def sample_env_def RAGChain_init_def Let_def)

text \<open>
  Claim C1. For a query classified as general, with an index present and a retrieval
  that returns (any documents, none or some), \<open>answer_question\<close> makes the retrieval
  call and then the call of the ungrounded generator, and returns what that generator
  returns with an empty list of citations; the retrieved documents appear nowhere in the
  result. An exception of the generator is the exception of the call.
\<close>

theorem general_query_answer_ungrounded:
  assumes "classify query = General"
    and "vector_store self = Some vs"
    and "retriever_invoke env vs top_k query = Inr retrieved_docs"
  shows "answer_question env self query top_k use_documents_only draw =
     (case fst (generate_response_without_context env self query) of
        Inl e \<Rightarrow> Inl e | Inr answer \<Rightarrow> Inr (answer, []),
      self,
      [Retriever_Invoke query top_k, LLM_Invoke (general_knowledge_prompt query)])"
  using assms answer_with_index [of query self vs env top_k retrieved_docs]
  by (simp add: classify_cases generate_response_without_context_def Let_def)

theorem general_query_answer_ungrounded_witness:
  "classify ''What is hypertension?'' = General
   \<and> vector_store sample_chain = Some [to_document sample_chunk]
   \<and> retriever_invoke sample_env [to_document sample_chunk] 5 ''What is hypertension?'' =
       Inr [to_document sample_chunk]
   \<and> answer_question sample_env sample_chain ''What is hypertension?'' 5 False 0 =
       (Inr (''Hello! How can I help you today?'', []), sample_chain,
        [Retriever_Invoke ''What is hypertension?'' 5,
         LLM_Invoke (general_knowledge_prompt ''What is hypertension?'')])"
proof -
  have a: "classify ''What is hypertension?'' = General" by code_simp
  have b: "vector_store sample_chain = Some [to_document sample_chunk]"
    by (simp add: sample_chain_eq)
  have c: "retriever_invoke sample_env [to_document sample_chunk] 5 ''What is hypertension?'' =
      Inr [to_document sample_chunk]"
    by (simp add: sample_env_def)
  from general_query_answer_ungrounded [OF a b c, of False 0] a b c
  show ?thesis by (simp add: generate_response_without_context_def sample_env_def)
qed

text \<open>
  Claim C2. For a query classified as document-targeted, with an index present and a
  retrieval that returns no document, \<open>answer_question\<close> returns the literal refusal
  sentence and an empty list of citations; its only external call is the retrieval, so
  the language model is not called.
\<close>

theorem document_query_without_hits_refused:
  assumes "classify query = Document_Targeted"
    and "vector_store self = Some vs"
    and "retriever_invoke env vs top_k query = Inr []"
  shows "answer_question env self query top_k use_documents_only draw =
     (Inr (''I don't have enough information in the documents to answer that question.'', []),
      self, [Retriever_Invoke query top_k])"
  using assms answer_with_index [of query self vs env top_k "[]"]
  by (simp add: classify_cases)

theorem document_query_without_hits_refused_witness:
  "classify ''What does the document say about gout?'' = Document_Targeted
   \<and> vector_store sample_chain = Some [to_document sample_chunk]
   \<and> retriever_invoke no_hits_env [to_document sample_chunk] 5
        ''What does the document say about gout?'' = Inr []
   \<and> answer_question no_hits_env sample_chain ''What does the document say about gout?'' 5 False 0 =
       (Inr (''I don't have enough information in the documents to answer that question.'', []),
        sample_chain, [Retriever_Invoke ''What does the document say about gout?'' 5])"
proof -
  have a: "classify ''What does the document say about gout?'' = Document_Targeted" by code_simp
  have b: "vector_store sample_chain = Some [to_document sample_chunk]"
    by (simp add: sample_chain_eq)
  have c: "retriever_invoke no_hits_env [to_document sample_chunk] 5
      ''What does the document say about gout?'' = Inr []"
    by (simp add: no_hits_env_def)
  from document_query_without_hits_refused [OF a b c, of False 0] a b c
  show ?thesis by simp
qed

text \<open>
  Claim C7. A query classified as greeting, farewell or unclear is answered without any
  access to the retrieval index and with an empty list of citations, and the object is
  unchanged. For a greeting the only external call is one call of the language model,
  whose answer (or exception) is the result. For a farewell and for an unclear query
  there is no external call at all, and the answer is a member of the farewell pool,
  respectively of the clarification pool, whatever the random draw.
\<close>

theorem social_queries_short_circuit:
  "(classify query = Greeting \<longrightarrow>
      answer_question env self query top_k use_documents_only draw =
        (case llm_invoke env (general_knowledge_prompt query) of
           Inl e \<Rightarrow> Inl e | Inr answer \<Rightarrow> Inr (answer, []),
         self, [LLM_Invoke (general_knowledge_prompt query)]))
   \<and> (classify query = Farewell \<longrightarrow>
        answer_question env self query top_k use_documents_only draw =
          (Inr (generate_farewell_message draw, []), self, [])
        \<and> generate_farewell_message draw \<in> set farewell_messages)
   \<and> (classify query = Unclear \<longrightarrow>
        answer_question env self query top_k use_documents_only draw =
          (Inr (generate_clarification_message draw, []), self, [])
        \<and> generate_clarification_message draw \<in> set clarification_messages)"
  by (simp add: classify_cases answer_greeting answer_farewell answer_unclear
      farewell_message_in_pool clarification_message_in_pool)

theorem social_queries_short_circuit_witness:
  "classify ''Hello'' = Greeting
   \<and> answer_question sample_env sample_chain ''Hello'' 5 False 0 =
       (Inr (''Hello! How can I help you today?'', []), sample_chain,
        [LLM_Invoke (general_knowledge_prompt ''Hello'')])
   \<and> classify ''ok, gotta go now'' = Farewell
   \<and> answer_question sample_env sample_chain ''ok, gotta go now'' 5 False 3 =
       (Inr (''Have a great day! Come back if you need more information.'', []),
        sample_chain, [])
   \<and> classify ''idk'' = Unclear
   \<and> answer_question sample_env sample_chain ''idk'' 5 False 6 =
       (Inr (''I'd be happy to help! Could you please rephrase your question?'', []),
        sample_chain, [])"
proof -
  have a: "classify ''Hello'' = Greeting" by code_simp
  have b: "classify ''ok, gotta go now'' = Farewell" by code_simp
  have c: "classify ''idk'' = Unclear" by code_simp
  have d: "generate_farewell_message 3 =
      ''Have a great day! Come back if you need more information.''"
    by (simp add: generate_farewell_message_def random_choice_def farewell_messages_def)
  have e: "generate_clarification_message 6 =
      ''I'd be happy to help! Could you please rephrase your question?''"
    by (simp add: generate_clarification_message_def random_choice_def
        clarification_messages_def)
  from social_queries_short_circuit [of "''Hello''" sample_env sample_chain 5 False 0]
    social_queries_short_circuit [of "''ok, gotta go now''" sample_env sample_chain 5 False 3]
    social_queries_short_circuit [of "''idk''" sample_env sample_chain 5 False 6]
    a b c d e
  show ?thesis by (simp add: sample_env_def)
qed

text \<open>
  Claim C4, as amended. The greeting test comes first: a query that contains a farewell
  phrase is classified as a farewell, and answered with a canned farewell and no
  citations, when it is not a greeting. The claim as stated (every query containing a
  farewell phrase is a farewell) fails for a query such as \<open>hi bye\<close>, which is a
  greeting and is answered by the language model.
\<close>

theorem farewell_unless_greeting:
  assumes "\<not> is_greeting query"
    and "farewell \<in> set farewells"
    and "sublist farewell (strip (lower query))"
  shows "classify query = Farewell
    \<and> answer_question env self query top_k use_documents_only draw =
        (Inr (generate_farewell_message draw, []), self, [])
    \<and> generate_farewell_message draw \<in> set farewell_messages"
proof -
  have "is_farewell query"
    using assms(2,3) by (auto simp: is_farewell_def Let_def list_ex_iff)
  with assms(1) show ?thesis
    by (simp add: classify_cases answer_farewell farewell_message_in_pool)
qed

theorem farewell_unless_greeting_witness:
  "\<not> is_greeting ''well, gotta go now'' \<and> ''gotta go'' \<in> set farewells
   \<and> sublist ''gotta go'' (strip (lower ''well, gotta go now''))
   \<and> classify ''well, gotta go now'' = Farewell
   \<and> answer_question sample_env sample_chain ''well, gotta go now'' 5 False 1 =
       (Inr (''See you later! Take care!'', []), sample_chain, [])"
proof -
  have a: "\<not> is_greeting ''well, gotta go now''" by code_simp
  have b: "''gotta go'' \<in> set farewells" by code_simp
  have c: "sublist ''gotta go'' (strip (lower ''well, gotta go now''))" by code_simp
  have d: "generate_farewell_message 1 = ''See you later! Take care!''"
    by (simp add: generate_farewell_message_def random_choice_def farewell_messages_def)
  from farewell_unless_greeting [OF a b c, of sample_env sample_chain 5 False 1] a b c d
  show ?thesis by simp
qed

theorem greeting_precedes_farewell_counterexample:
  "''bye'' \<in> set farewells \<and> sublist ''bye'' (strip (lower ''hi bye''))
   \<and> classify ''hi bye'' = Greeting
   \<and> answer_question sample_env sample_chain ''hi bye'' 5 False 0 =
       (Inr (''Hello! How can I help you today?'', []), sample_chain,
        [LLM_Invoke (general_knowledge_prompt ''hi bye'')])
   \<and> ''Hello! How can I help you today?'' \<notin> set farewell_messages"
proof -
  have g: "is_greeting ''hi bye''" by code_simp
  have "''bye'' \<in> set farewells" by code_simp
  moreover have "sublist ''bye'' (strip (lower ''hi bye''))" by code_simp
  moreover have "classify ''hi bye'' = Greeting" using g by (simp add: classify_def)
  moreover have "answer_question sample_env sample_chain ''hi bye'' 5 False 0 =
       (Inr (''Hello! How can I help you today?'', []), sample_chain,
        [LLM_Invoke (general_knowledge_prompt ''hi bye'')])"
    using answer_greeting [OF g, of sample_env] by (simp add: sample_env_def)
  moreover have "''Hello! How can I help you today?'' \<notin> set farewell_messages"
    by (simp add: farewell_messages_def)
  ultimately show ?thesis by blast
qed

text \<open>
  Claim C10. The single word \<open>history\<close> is not a greeting phrase, and its only word is
  not one either, but it starts with the characters of the phrase \<open>hi\<close> and one fragment
  follows: the greeting test holds for it, and \<open>answer_question\<close> takes the greeting
  branch (one call of the language model, no retrieval, whatever the index).
\<close>

theorem history_is_greeted:
  "is_greeting ''history'' \<and> ''history'' \<notin> set greetings \<and> split ''history'' = [''history'']
   \<and> startswith ''history'' ''hi'' \<and> ''hi'' \<in> set greetings
   \<and> split (strip (drop (length ''hi'') ''history'')) = [''story'']
   \<and> classify ''history'' = Greeting
   \<and> answer_question env self ''history'' top_k use_documents_only draw =
       (case llm_invoke env (general_knowledge_prompt ''history'') of
          Inl e \<Rightarrow> Inl e | Inr answer \<Rightarrow> Inr (answer, []),
        self, [LLM_Invoke (general_knowledge_prompt ''history'')])"
proof -
  have g: "is_greeting ''history''" by code_simp
  moreover have "''history'' \<notin> set greetings" by code_simp
  moreover have "split ''history'' = [''history'']" by code_simp
  moreover have "startswith ''history'' ''hi''" by code_simp
  moreover have "''hi'' \<in> set greetings" by code_simp
  moreover have "split (strip (drop (length ''hi'') ''history'')) = [''story'']" by code_simp
  moreover have "classify ''history'' = Greeting" using g by (simp add: classify_def)
  ultimately show ?thesis using answer_greeting [OF g] by simp
qed

theorem history_is_greeted_witness:
  "is_greeting ''history''
   \<and> answer_question sample_env sample_chain ''history'' 5 False 0 =
       (Inr (''Hello! How can I help you today?'', []), sample_chain,
        [LLM_Invoke (general_knowledge_prompt ''history'')])"
  using history_is_greeted [of sample_env sample_chain 5 False 0]
  by (simp add: sample_env_def)

text \<open>
  The grounded branch: a document-targeted query, an index and a retrieval that returns
  at least one document. The answer is the one of \<open>generate_response\<close> on the retrieved
  documents, and the citations are exactly these documents, in the order retrieved.
\<close>

theorem grounded_answer_cites_hits:
  assumes "classify query = Document_Targeted"
    and "vector_store self = Some vs"
    and "retriever_invoke env vs top_k query = Inr retrieved_docs"
    and "retrieved_docs \<noteq> []"
  shows "answer_question env self query top_k use_documents_only draw =
     (case fst (generate_response env self query (map to_result retrieved_docs)) of
        Inl e \<Rightarrow> Inl e | Inr answer \<Rightarrow> Inr (answer, map to_result retrieved_docs),
      self,
      [Retriever_Invoke query top_k,
       LLM_Invoke (build_prompt query (format_context (map to_result retrieved_docs)))])"
  using assms answer_with_index [of query self vs env top_k retrieved_docs]
  by (simp add: classify_cases generate_response_def Let_def)

theorem grounded_answer_cites_hits_witness:
  "classify ''What does the document say about hypertension?'' = Document_Targeted
   \<and> answer_question sample_env sample_chain
        ''What does the document say about hypertension?'' 5 False 0 =
       (Inr (''Hello! How can I help you today?'', [to_result (to_document sample_chunk)]),
        sample_chain,
        [Retriever_Invoke ''What does the document say about hypertension?'' 5,
         LLM_Invoke (build_prompt ''What does the document say about hypertension?''
           (''[Document 1 - a.pdf]'' @ newline @ ''Hypertension is high blood pressure.''
              @ newline))])"
proof -
  have a: "classify ''What does the document say about hypertension?'' = Document_Targeted"
    by code_simp
  have b: "vector_store sample_chain = Some [to_document sample_chunk]"
    by (simp add: sample_chain_eq)
  have c: "retriever_invoke sample_env [to_document sample_chunk] 5
      ''What does the document say about hypertension?'' = Inr [to_document sample_chunk]"
    by (simp add: sample_env_def)
  have d: "[to_document sample_chunk] \<noteq> []" by simp
  have e: "format_context (map to_result [to_document sample_chunk]) =
      ''[Document 1 - a.pdf]'' @ newline @ ''Hypertension is high blood pressure.'' @ newline"
    by code_simp
  from grounded_answer_cites_hits [OF a b c d, of False 0] a e
  show ?thesis by (simp add: generate_response_def sample_env_def Let_def)
qed

text \<open>
  A query whose trimmed lowercase form is one of the vague words is classified as unclear
  (none of these words passes the greeting or the farewell test); a query of several
  words, or of none, never is.
\<close>

lemma unclear_keywords_checked:
  "list_all (\<lambda>k. k \<notin> set greetings \<and> \<not> greeting_loop greetings k
      \<and> \<not> list_ex (\<lambda>farewell. sublist farewell k) farewells
      \<and> length (split k) = 1) unclear_keywords"
  by code_simp

theorem vague_word_is_unclear:
  "(strip (lower query) \<in> set unclear_keywords \<longrightarrow> classify query = Unclear)
   \<and> (length (split (strip (lower query))) \<noteq> 1 \<longrightarrow> classify query \<noteq> Unclear)"
proof -
  have "classify query = Unclear" if "strip (lower query) \<in> set unclear_keywords"
    using that unclear_keywords_checked
    by (auto simp: list_all_iff classify_def is_greeting_def is_farewell_def
        is_unclear_query_def Let_def)
  moreover have "classify query \<noteq> Unclear" if "length (split (strip (lower query))) \<noteq> 1"
    using that by (simp add: classify_cases is_unclear_query_def Let_def)
  ultimately show ?thesis by blast
qed

theorem vague_word_is_unclear_witness:
  "strip (lower '' IDK '') \<in> set unclear_keywords \<and> classify '' IDK '' = Unclear
   \<and> length (split (strip (lower ''nothing much''))) \<noteq> 1
   \<and> classify ''nothing much'' \<noteq> Unclear"
proof -
  have a: "strip (lower '' IDK '') \<in> set unclear_keywords" by code_simp
  have b: "length (split (strip (lower ''nothing much''))) \<noteq> 1" by code_simp
  from vague_word_is_unclear [of "'' IDK ''"] vague_word_is_unclear [of "''nothing much''"] a b
  show ?thesis by blast
qed

section \<open>Building and searching the index\<close>

lemma create_vector_store_outcome:
  "create_vector_store env self documents =
     (case from_documents env (map to_document documents) of
        Inl e \<Rightarrow> (Inl e, self, [From_Documents (map to_document documents)])
      | Inr ix \<Rightarrow> (Inr (), self\<lparr>vector_store := Some ix, retriever := Some (ix, 5)\<rparr>,
                   [From_Documents (map to_document documents)]))"
  by (simp add: create_vector_store_def Let_def)

text \<open>
  Claim C3, as amended. \<open>VectorStore.create_vector_store\<close> called with an empty sequence
  fails with the \<open>ValueError\<close> "Documents list cannot be empty", makes no external call and
  leaves the object unchanged. \<open>RAGChain.create_vector_store\<close> has no test for an empty
  sequence: it hands every sequence to the index constructor. For both classes, a build
  whose index constructor returns an index installs it (for \<open>VectorStore\<close>: on a non-empty
  sequence), and a search on the object after that build does not take the not-built
  branch: it calls the index, and its outcome is the outcome of that call. A build whose
  index constructor raises propagates the exception and leaves the object unchanged.
\<close>

theorem build_then_search:
  "VectorStore_create_vector_store env vself [] =
       (Inl (ValueError ''Documents list cannot be empty''), vself, [])
   \<and> (documents \<noteq> [] \<and> from_documents env (map to_document documents) = Inr ix \<longrightarrow>
        VectorStore_create_vector_store env vself documents =
          (Inr (), vself\<lparr>vs_vector_store := Some ix\<rparr>, [From_Documents (map to_document documents)])
        \<and> VectorStore_query env (vself\<lparr>vs_vector_store := Some ix\<rparr>) query top_k =
            (case similarity_search env ix query top_k of
               Inl e \<Rightarrow> Inl e | Inr results \<Rightarrow> Inr (map page_content results),
             vself\<lparr>vs_vector_store := Some ix\<rparr>, [Similarity_Search query top_k]))
   \<and> (from_documents env (map to_document documents) = Inr ix \<longrightarrow>
        create_vector_store env self documents =
          (Inr (), self\<lparr>vector_store := Some ix, retriever := Some (ix, 5)\<rparr>,
           [From_Documents (map to_document documents)])
        \<and> retrieve_context env (self\<lparr>vector_store := Some ix, retriever := Some (ix, 5)\<rparr>)
              query top_k =
            (case retriever_invoke env ix top_k query of
               Inl e \<Rightarrow> Inl e | Inr retrieved_docs \<Rightarrow> Inr (map to_result retrieved_docs),
             self\<lparr>vector_store := Some ix, retriever := Some (ix, 5)\<rparr>,
             [Retriever_Invoke query top_k]))
   \<and> (from_documents env (map to_document documents) = Inl e \<longrightarrow>
        create_vector_store env self documents =
          (Inl e, self, [From_Documents (map to_document documents)])
        \<and> (documents \<noteq> [] \<longrightarrow>
             VectorStore_create_vector_store env vself documents =
               (Inl e, vself, [From_Documents (map to_document documents)])))"
  by (simp add: VectorStore_create_vector_store_def VectorStore_query_def
      create_vector_store_outcome retrieve_context_def Let_def split: sum.splits)

theorem build_then_search_witness:
  "VectorStore_create_vector_store sample_env VectorStore_init [sample_chunk] =
     (Inr (), \<lparr>vs_vector_store = Some [to_document sample_chunk]\<rparr>,
      [From_Documents [to_document sample_chunk]])
   \<and> VectorStore_query sample_env \<lparr>vs_vector_store = Some [to_document sample_chunk]\<rparr>
        ''blood pressure'' 5 =
       (Inr [''Hypertension is high blood pressure.''],
        \<lparr>vs_vector_store = Some [to_document sample_chunk]\<rparr>,
        [Similarity_Search ''blood pressure'' 5])
   \<and> create_vector_store sample_env RAGChain_init [sample_chunk] =
       (Inr (), sample_chain, [From_Documents [to_document sample_chunk]])
   \<and> retrieve_context sample_env sample_chain ''blood pressure'' 5 =
       (Inr [to_result (to_document sample_chunk)], sample_chain,
        [Retriever_Invoke ''blood pressure'' 5])
   \<and> create_vector_store failing_env sample_chain [sample_chunk] =
       (Inl (OtherException ''connection error''), sample_chain,
        [From_Documents [to_document sample_chunk]])
   \<and> VectorStore_create_vector_store failing_env VectorStore_init [sample_chunk] =
       (Inl (OtherException ''connection error''), VectorStore_init,
        [From_Documents [to_document sample_chunk]])"
proof -
  have ok: "from_documents sample_env (map to_document [sample_chunk]) = Inr [to_document sample_chunk]"
    by (simp add: sample_env_def)
  have bad: "from_documents failing_env (map to_document [sample_chunk]) =
      Inl (OtherException ''connection error'')"
    by (simp add: failing_env_def)
  have ne: "[sample_chunk] \<noteq> []" by simp
  have pc: "page_content (to_document sample_chunk) = ''Hypertension is high blood pressure.''"
    by (simp add: to_document_def sample_chunk_def)
  from build_then_search [of sample_env VectorStore_init "[sample_chunk]"
      "[to_document sample_chunk]" "''blood pressure''" 5 RAGChain_init] ok ne
    build_then_search [of failing_env VectorStore_init "[sample_chunk]" _ _ _ sample_chain
      "OtherException ''connection error''"] bad
  show ?thesis
    by (simp add: sample_chain_eq VectorStore_init_def RAGChain_init_def sample_env_def pc)
qed

theorem unchecked_build_counterexample:
  "create_vector_store faiss_like_env RAGChain_init [] =
     (Inl (OtherException ''list index out of range''), RAGChain_init, [From_Documents []])
   \<and> fst (create_vector_store faiss_like_env RAGChain_init [])
       \<noteq> Inl (ValueError ''Documents list cannot be empty'')"
  by (simp add: create_vector_store_def faiss_like_env_def sample_env_def)

lemma attempt_builds_failed:
  "\<forall>documents \<in> set attempts. isl (from_documents env (map to_document documents)) \<Longrightarrow>
   attempt_builds env self attempts = self"
  unfolding attempt_builds_def
  by (induction attempts arbitrary: self)
     (auto simp: create_vector_store_outcome isl_def split: sum.splits)

text \<open>
  Claim C6. \<open>retrieve_context\<close> on an object whose index is absent fails with the
  \<open>ValueError\<close> "Vector store not initialized. Process documents first.", makes no external
  call and leaves the object unchanged. The index is absent on a new object and after
  any sequence of builds that all failed.
\<close>

theorem retrieve_before_build_fails:
  "(vector_store self = None \<longrightarrow>
      retrieve_context env self query top_k =
        (Inl (ValueError ''Vector store not initialized. Process documents first.''), self, []))
   \<and> ((\<forall>documents \<in> set attempts. isl (from_documents env (map to_document documents))) \<longrightarrow>
        retrieve_context env (attempt_builds env RAGChain_init attempts) query top_k =
          (Inl (ValueError ''Vector store not initialized. Process documents first.''),
           RAGChain_init, []))"
  by (simp add: attempt_builds_failed) (simp add: retrieve_context_def RAGChain_init_def)

theorem retrieve_before_build_fails_witness:
  "vector_store (RAGChain_init :: document list rag_chain) = None
   \<and> isl (from_documents failing_env (map to_document [sample_chunk]))
   \<and> retrieve_context failing_env (attempt_builds failing_env RAGChain_init [[sample_chunk]])
        ''What is hypertension?'' 5 =
       (Inl (ValueError ''Vector store not initialized. Process documents first.''),
        RAGChain_init, [])
   \<and> retrieve_context sample_env RAGChain_init ''What is hypertension?'' 5 =
       (Inl (ValueError ''Vector store not initialized. Process documents first.''),
        RAGChain_init, [])"
proof -
  have a: "vector_store (RAGChain_init :: document list rag_chain) = None"
    by (simp add: RAGChain_init_def)
  have b: "\<forall>documents \<in> set [[sample_chunk]].
      isl (from_documents failing_env (map to_document documents))"
    by (simp add: failing_env_def)
  from retrieve_before_build_fails [of RAGChain_init sample_env "''What is hypertension?''" 5 "[]"]
    retrieve_before_build_fails [of RAGChain_init failing_env "''What is hypertension?''" 5
      "[[sample_chunk]]"] a b
  show ?thesis by simp
qed

section \<open>Conversation retention\<close>

lemma add_user_message_eq:
  "snd (add_user_message self c now) =
     trim_history (self\<lparr>messages := messages self @ [appended (Add_User c now)]\<rparr>)"
  by (simp add: add_user_message_def ChatMessage_init_def)

lemma add_assistant_message_eq:
  "snd (add_assistant_message self c m now) =
     trim_history (self\<lparr>messages := messages self @ [appended (Add_Assistant c m now)]\<rparr>)"
  by (simp add: add_assistant_message_def ChatMessage_init_def)

lemma append_message_eq:
  "append_message self call = trim_history (self\<lparr>messages := messages self @ [appended call]\<rparr>)"
  by (cases call) (simp_all only: append_message.simps add_user_message_eq add_assistant_message_eq)

lemma trim_history_positive:
  "0 < max_history self \<Longrightarrow>
   trim_history self =
     self\<lparr>messages := drop (length (messages self) - nat (max_history self)) (messages self)\<rparr>"
  by (auto simp: trim_history_def slice_from_def Let_def max_def nat_diff_distrib'
      intro!: arg_cong2 [where f = drop])

lemma trim_history_zero:
  "max_history self = 0 \<Longrightarrow> trim_history self = self"
  by (simp add: trim_history_def slice_from_def Let_def)

lemma max_history_append_message [simp]:
  "max_history (append_message self call) = max_history self"
  by (simp add: append_message_eq trim_history_def)

lemma max_history_append_all [simp]: "max_history (append_all self calls) = max_history self"
  unfolding append_all_def by (induction calls arbitrary: self) simp_all

lemma append_all_snoc:
  "append_all self (calls @ [call]) = append_message (append_all self calls) call"
  by (simp add: append_all_def)

lemma drop_window:
  "drop (length (drop (length xs - m) xs @ [x]) - m) (drop (length xs - m) xs @ [x]) =
   drop (length (xs @ [x]) - m) (xs @ [x])"
  by (cases "length xs \<le> m") (auto simp: Suc_diff_le)

lemma retention_positive:
  assumes "0 < max_history_arg"
  shows "messages (append_all (ChatManager_init max_history_arg generated_id) calls) =
     drop (length calls - nat max_history_arg) (map appended calls)"
proof (induction calls rule: rev_induct)
  case Nil
  show ?case by (simp add: append_all_def ChatManager_init_def)
next
  case (snoc call calls)
  let ?s = "append_all (ChatManager_init max_history_arg generated_id) calls"
  have m: "max_history ?s = max_history_arg" by (simp add: ChatManager_init_def)
  have "messages (append_message ?s call) =
      drop (length (messages ?s @ [appended call]) - nat max_history_arg)
        (messages ?s @ [appended call])"
    using assms m by (simp add: append_message_eq trim_history_positive)
  also have "\<dots> = drop (length (map appended calls @ [appended call]) - nat max_history_arg)
      (map appended calls @ [appended call])"
    unfolding snoc.IH using drop_window [of "map appended calls" "nat max_history_arg"] by simp
  finally show ?case by (simp add: append_all_snoc)
qed

text \<open>
  For a positive bound the store is a sliding window: after any sequence of appends to a
  new conversation, exactly the last \<open>max_history\<close> messages appended remain (all of them
  when there are fewer), in the order appended.
\<close>

theorem retention_window:
  assumes "0 < max_history_arg"
  shows "messages (append_all (ChatManager_init max_history_arg generated_id) calls) =
     drop (length calls - nat max_history_arg) (map appended calls)
   \<and> int (length (messages (append_all (ChatManager_init max_history_arg generated_id) calls)))
       \<le> max_history_arg
   \<and> (length calls = nat max_history_arg + 5 \<longrightarrow>
        messages (append_all (ChatManager_init max_history_arg generated_id) calls) =
          drop 5 (map appended calls))"
  using retention_positive [OF assms, of generated_id calls] assms by auto

theorem retention_window_witness:
  "(0::int) < 2
   \<and> map message_content (messages (append_all (ChatManager_init 2 ''20240101_000000'')
        [Add_User ''m1'' 1, Add_Assistant ''m2'' None 2, Add_User ''m3'' 3,
         Add_Assistant ''m4'' None 4, Add_User ''m5'' 5, Add_Assistant ''m6'' None 6,
         Add_User ''m7'' 7])) = [''m6'', ''m7'']"
proof -
  have a: "(0::int) < 2" by simp
  have b: "length [Add_User ''m1'' 1, Add_Assistant ''m2'' None 2, Add_User ''m3'' 3,
         Add_Assistant ''m4'' None 4, Add_User ''m5'' 5, Add_Assistant ''m6'' None 6,
         Add_User ''m7'' 7] = nat 2 + 5" by simp
  from retention_window [OF a, of "''20240101_000000''"
      "[Add_User ''m1'' 1, Add_Assistant ''m2'' None 2, Add_User ''m3'' 3,
         Add_Assistant ''m4'' None 4, Add_User ''m5'' 5, Add_Assistant ''m6'' None 6,
         Add_User ''m7'' 7]"] a b
  show ?thesis by simp
qed

text \<open>
  Claim C8. With \<open>max_history = 0\<close> the store is meant to keep no message, and five
  appends are \<open>max_history + 5\<close> messages. The slice \<open>self.messages[-self.max_history:]\<close>
  is then \<open>self.messages[0:]\<close>, the whole list: all five messages remain.
\<close>

theorem zero_max_history_keeps_everything:
  "max_history (ChatManager_init 0 ''20240101_000000'') = 0
   \<and> map message_content (messages (append_all (ChatManager_init 0 ''20240101_000000'')
        [Add_User ''m1'' 1, Add_Assistant ''m2'' None 2, Add_User ''m3'' 3,
         Add_Assistant ''m4'' None 4, Add_User ''m5'' 5])) =
       [''m1'', ''m2'', ''m3'', ''m4'', ''m5'']"
  by (simp add: append_all_def append_message_eq trim_history_zero ChatManager_init_def
      trim_history_def slice_from_def)

section \<open>Document submission\<close>

lemma process_files_all_chunks:
  "all_chunks (process_files env st files) = all_chunks st @ batch_chunks env files"
  by (induction files arbitrary: st) (auto simp: batch_chunks_def split: sum.splits)

lemma process_files_rag_chain: "rag_chain (process_files env st files) = rag_chain st"
  by (induction files arbitrary: st) (auto split: sum.splits)

lemma process_documents_all_chunks:
  "all_chunks (fst (process_documents env st files)) = all_chunks st @ batch_chunks env files"
  by (simp add: process_documents_def Let_def process_files_all_chunks split: prod.splits)

lemma submit_all_all_chunks:
  "all_chunks (submit_all env st batches) = all_chunks st @ concat (map (batch_chunks env) batches)"
  unfolding submit_all_def
  by (induction batches arbitrary: st) (simp_all add: process_documents_all_chunks)

lemma process_documents_rebuild:
  assumes "all_chunks st @ batch_chunks env files \<noteq> []"
  shows "snd (process_documents env st files) =
      [From_Documents (map to_document (all_chunks st @ batch_chunks env files))]"
    and "from_documents env (map to_document (all_chunks st @ batch_chunks env files)) = Inr ix
      \<Longrightarrow> rag_chain (fst (process_documents env st files)) =
          \<lparr>vector_store = Some ix, retriever = Some (ix, 5)\<rparr>"
    and "from_documents env (map to_document (all_chunks st @ batch_chunks env files)) = Inl e
      \<Longrightarrow> rag_chain (fst (process_documents env st files)) = rag_chain st"
  using assms
  by (simp_all add: process_documents_def Let_def process_files_all_chunks
      process_files_rag_chain create_vector_store_outcome split: sum.splits)

lemma process_documents_no_chunks:
  "all_chunks st @ batch_chunks env files = [] \<Longrightarrow>
   snd (process_documents env st files) = [] \<and>
   rag_chain (fst (process_documents env st files)) = rag_chain st"
  by (simp add: process_documents_def Let_def process_files_all_chunks process_files_rag_chain)

text \<open>
  Claim C9. In a session of calls of \<open>process_documents\<close>, the accumulated collection
  after the calls is the concatenation, in order, of the batches submitted: a call only
  appends. A call then hands the whole accumulated collection, when it is not empty, to
  the index constructor, in one call; when the constructor returns an index, that index
  and a retriever over it replace the old ones, so the chain holds nothing of the old index.
  When the constructor raises, the exception is swallowed and the chain is unchanged;
  when nothing has been accumulated, no build is attempted.
\<close>

theorem submissions_accumulate_and_rebuild:
  "all_chunks (submit_all env initialize_session_state batches) =
     concat (map (batch_chunks env) batches)
   \<and> all_chunks (submit_all env st batches) =
       all_chunks st @ concat (map (batch_chunks env) batches)
   \<and> (let before = submit_all env st batches;
           after = fst (process_documents env before files)
       in all_chunks after = all_chunks before @ batch_chunks env files
        \<and> (all_chunks after \<noteq> [] \<longrightarrow>
             snd (process_documents env before files) =
               [From_Documents (map to_document (all_chunks after))]
             \<and> (\<forall>ix. from_documents env (map to_document (all_chunks after)) = Inr ix \<longrightarrow>
                   rag_chain after = \<lparr>vector_store = Some ix, retriever = Some (ix, 5)\<rparr>)
             \<and> (\<forall>e. from_documents env (map to_document (all_chunks after)) = Inl e \<longrightarrow>
                   rag_chain after = rag_chain before))
        \<and> (all_chunks after = [] \<longrightarrow>
             snd (process_documents env before files) = [] \<and> rag_chain after = rag_chain before))"
proof -
  have "all_chunks (submit_all env initialize_session_state batches) =
      concat (map (batch_chunks env) batches)"
    by (simp add: submit_all_all_chunks initialize_session_state_def)
  moreover have "all_chunks (submit_all env st batches) =
      all_chunks st @ concat (map (batch_chunks env) batches)"
    by (rule submit_all_all_chunks)
  moreover have "all_chunks (fst (process_documents env s files)) \<noteq> [] \<longrightarrow>
      snd (process_documents env s files) =
        [From_Documents (map to_document (all_chunks (fst (process_documents env s files))))]
      \<and> (\<forall>ix. from_documents env
                (map to_document (all_chunks (fst (process_documents env s files)))) = Inr ix \<longrightarrow>
            rag_chain (fst (process_documents env s files)) =
              \<lparr>vector_store = Some ix, retriever = Some (ix, 5)\<rparr>)
      \<and> (\<forall>e. from_documents env
                (map to_document (all_chunks (fst (process_documents env s files)))) = Inl e \<longrightarrow>
            rag_chain (fst (process_documents env s files)) = rag_chain s)" for s
    unfolding process_documents_all_chunks
    using process_documents_rebuild [of s env files] by blast
  moreover have "all_chunks (fst (process_documents env s files)) = [] \<longrightarrow>
      snd (process_documents env s files) = [] \<and>
      rag_chain (fst (process_documents env s files)) = rag_chain s" for s
    unfolding process_documents_all_chunks
    using process_documents_no_chunks [of s env files] by blast
  ultimately show ?thesis
    unfolding Let_def using process_documents_all_chunks by blast
qed

lemma batch_chunks_sample:
  "batch_chunks sample_env [file] = [sample_file_chunk file (file_name file)]"
  "batch_chunks failing_env files = []"
  "batch_chunks env [] = []"
  by (simp_all add: batch_chunks_def sample_env_def failing_env_def)

theorem submissions_accumulate_and_rebuild_witness:
  "all_chunks (submit_all sample_env initialize_session_state [[file_a], [file_b]]) =
     [sample_file_chunk file_a ''a.pdf'', sample_file_chunk file_b ''b.pdf'']
   \<and> rag_chain (fst (process_documents sample_env
         (submit_all sample_env initialize_session_state [[file_a]]) [file_b])) =
       \<lparr>vector_store = Some [to_document (sample_file_chunk file_a ''a.pdf''),
                              to_document (sample_file_chunk file_b ''b.pdf'')],
        retriever = Some ([to_document (sample_file_chunk file_a ''a.pdf''),
                            to_document (sample_file_chunk file_b ''b.pdf'')], 5)\<rparr>
   \<and> rag_chain (fst (process_documents failing_env
         (submit_all sample_env initialize_session_state [[file_a]]) [file_b])) =
       rag_chain (submit_all sample_env initialize_session_state [[file_a]])
   \<and> snd (process_documents failing_env
         (submit_all sample_env initialize_session_state [[file_a]]) [file_b]) =
       [From_Documents [to_document (sample_file_chunk file_a ''a.pdf'')]]
   \<and> process_documents sample_env initialize_session_state [] = (initialize_session_state, [])"
proof -
  let ?ca = "sample_file_chunk file_a ''a.pdf''" and ?cb = "sample_file_chunk file_b ''b.pdf''"
  let ?s1 = "submit_all sample_env initialize_session_state [[file_a]]"
  have na: "file_name file_a = ''a.pdf''" and nb: "file_name file_b = ''b.pdf''"
    by (simp_all add: file_a_def file_b_def)
  have i0: "all_chunks (initialize_session_state :: document list session_state) = []"
    by (simp add: initialize_session_state_def)
  have nil: "submit_all env st [] = st" for env :: "document list collaborators" and st
    by (simp add: submit_all_def)
  have ok: "from_documents sample_env docs = Inr docs" for docs
    by (simp add: sample_env_def)
  have bad: "from_documents failing_env docs = Inl (OtherException ''connection error'')" for docs
    by (simp add: failing_env_def)
  have s1: "all_chunks ?s1 = [?ca]"
    using submissions_accumulate_and_rebuild [of sample_env "[[file_a]]"]
    by (simp add: batch_chunks_sample na i0)
  have w1: "all_chunks (submit_all sample_env initialize_session_state [[file_a], [file_b]]) =
      [?ca, ?cb]"
    using submissions_accumulate_and_rebuild [of sample_env "[[file_a], [file_b]]"]
    by (simp add: batch_chunks_sample na nb i0)
  have w2: "rag_chain (fst (process_documents sample_env ?s1 [file_b])) =
      \<lparr>vector_store = Some [to_document ?ca, to_document ?cb],
       retriever = Some ([to_document ?ca, to_document ?cb], 5)\<rparr>"
    using submissions_accumulate_and_rebuild
      [of sample_env "[[file_a]]" initialize_session_state "[file_b]"]
    by (simp add: Let_def batch_chunks_sample na nb s1 ok i0)
  have w3: "rag_chain (fst (process_documents failing_env ?s1 [file_b])) = rag_chain ?s1"
    "snd (process_documents failing_env ?s1 [file_b]) = [From_Documents [to_document ?ca]]"
    using submissions_accumulate_and_rebuild [of failing_env "[]" ?s1 "[file_b]"]
    by (simp_all add: Let_def nil batch_chunks_sample s1 bad)
  have w4: "process_documents sample_env initialize_session_state [] =
      (initialize_session_state, [])"
  proof -
    have "snd (process_documents sample_env initialize_session_state []) = []"
      using submissions_accumulate_and_rebuild [of sample_env "[]" initialize_session_state "[]"]
      by (simp add: Let_def nil batch_chunks_sample i0)
    moreover have "fst (process_documents sample_env initialize_session_state []) =
        initialize_session_state"
      by (simp add: process_documents_def Let_def i0)
    ultimately show ?thesis by (simp add: prod_eq_iff)
  qed
  from w1 w2 w3 w4 show ?thesis by blast
qed

end
